theory Spec2Isabelle
  imports Main "HOL-Library.Word"
begin

unbundle bit_operations_syntax

section \<open>The HTML4 SAX push parser binding (ext/nokogiri/html4\_sax\_push\_parser.c)\<close>

text \<open>
  The file defines two private methods of \<^verbatim>\<open>Nokogiri::HTML4::SAX::PushParser\<close>:
  \<^verbatim>\<open>native_write(chunk, last_chunk)\<close> and
  \<^verbatim>\<open>initialize_native(xml_sax, filename, encoding)\<close>. Both are thin: they
  convert Ruby values, call libxml2, and raise Ruby exceptions. The embedding keeps
  that shape. Ruby values are a datatype, a raise is the \<open>Inl\<close> of a sum, the
  memory the C code mutates (the parser context behind \<^verbatim>\<open>self\<close> and libxml2's two
  structured-error globals) is a record passed in and returned, and the libxml2 entry
  points, whose code is not part of the repository, are parameters of the two
  functions.
\<close>

subsection \<open>Ruby values and exceptions\<close>

text \<open>
  \<open>VALUE\<close>: the special constants the code compares against, a String (a byte
  sequence), and any other object, identified by a number.
\<close>

datatype VALUE = Qnil | Qtrue | Qfalse | RString string | RObject nat

text \<open>
  A libxml2 error record (\<^verbatim>\<open>xmlError\<close>); \<open>code = 0\<close> is \<^verbatim>\<open>XML_ERR_OK\<close>.
\<close>

record xmlError =
  code :: int
  message :: string

text \<open>
  The exceptions the two functions can leave with: \<^verbatim>\<open>rb_eArgError\<close> and
  \<^verbatim>\<open>rb_eRuntimeError\<close> with their messages, the \<^verbatim>\<open>TypeError\<close> of Ruby's string
  conversion, and the syntax error that \<^verbatim>\<open>noko__error_raise\<close> builds from a libxml2
  error (a NULL error pointer is \<open>None\<close>).
\<close>

datatype exn =
    TypeError
  | ArgError string
  | RuntimeError string
  | SyntaxError "xmlError option"

text \<open>
  \<^verbatim>\<open>StringValuePtr\<close> and \<^verbatim>\<open>StringValueCStr\<close> belong to Ruby's C interface: both
  raise \<^verbatim>\<open>TypeError\<close> for a value that is not a String (an \<open>RObject\<close> stands for an
  object without \<^verbatim>\<open>to_str\<close>), and the second raises \<^verbatim>\<open>ArgumentError\<close> for a String
  with an embedded NUL byte, since it promises a C string.
\<close>

fun StringValuePtr :: "VALUE \<Rightarrow> exn + string" where
  "StringValuePtr (RString s) = Inr s"
| "StringValuePtr v = Inl TypeError"

fun StringValueCStr :: "VALUE \<Rightarrow> exn + string" where
  "StringValueCStr (RString s) =
     (if CHR 0x00 \<in> set s then Inl (ArgError ''string contains null byte'') else Inr s)"
| "StringValueCStr v = Inl TypeError"

definition RSTRING_LEN :: "string \<Rightarrow> int" where
  "RSTRING_LEN s = int (length s)"

text \<open>
  \<^verbatim>\<open>(int)RSTRING_LEN(_chunk)\<close>: the length is a \<^verbatim>\<open>long\<close>, the cast keeps its low
  32 bits, read as a signed number.
\<close>

definition cast_int :: "int \<Rightarrow> int" where
  "cast_int n = sint (word_of_int n :: 32 word)"

subsection \<open>libxml2 state\<close>

datatype pointer = NULL | Addr nat

text \<open>
  The parser context. The binding writes \<^verbatim>\<open>userData\<close> and \<^verbatim>\<open>_private\<close> and reads
  the options and the last error through \<^verbatim>\<open>xmlCtxtGetOptions\<close> and
  \<^verbatim>\<open>xmlCtxtGetLastError\<close>; everything else in the struct is the parser's own and is
  left abstract as \<open>parser_state\<close>. \<open>userData\<close> pointing to the context itself is
  \<open>True\<close>.
\<close>

record 'p xmlParserCtxt =
  userData_is_ctxt :: bool
  private_data :: "VALUE option"
  options :: int
  lastError :: xmlError
  parser_state :: 'p

text \<open>
  Constants of libxml2's headers: \<^verbatim>\<open>XML_PARSE_RECOVER\<close> is bit 0 of the parser
  options; \<^verbatim>\<open>XML_CHAR_ENCODING_ERROR\<close> and \<^verbatim>\<open>XML_CHAR_ENCODING_NONE\<close> are the
  first two values of \<^verbatim>\<open>xmlCharEncoding\<close>.
\<close>

definition XML_PARSE_RECOVER :: int where
  "XML_PARSE_RECOVER = 1"

definition XML_CHAR_ENCODING_ERROR :: int where
  "XML_CHAR_ENCODING_ERROR = - 1"

definition XML_CHAR_ENCODING_NONE :: int where
  "XML_CHAR_ENCODING_NONE = 0"

definition xmlCtxtGetOptions :: "'p xmlParserCtxt \<Rightarrow> int" where
  "xmlCtxtGetOptions ctx = options ctx"

text \<open>\<^verbatim>\<open>xmlCtxtGetLastError\<close> returns NULL when no error is recorded.\<close>

definition xmlCtxtGetLastError :: "'p xmlParserCtxt \<Rightarrow> xmlError option" where
  "xmlCtxtGetLastError ctx =
     (if code (lastError ctx) = 0 then None else Some (lastError ctx))"

text \<open>
  libxml2's global structured error handler: the function and its context argument.
\<close>

record error_globals =
  xmlStructuredError :: pointer
  xmlStructuredErrorContext :: pointer

record libxmlStructuredErrorHandlerState =
  user_data :: pointer
  handler :: pointer

text \<open>
  The two helpers that lines 27 and 31 call, and the struct they share, are defined
  elsewhere in the repository (xml\_syntax\_error.c), not in this file, and the
  specification has no sentence on the error handler. They are read off their names
  and the two call sites. \<^verbatim>\<open>noko__structured_error_func_save_and_set(&handler_state,
  NULL, NULL)\<close> gets a pointer to a local struct and the pair to install: it copies the
  current handler and its context into the struct and installs the pair it is given.
\<close>

definition noko__structured_error_func_save_and_set ::
  "error_globals \<Rightarrow> pointer \<Rightarrow> pointer \<Rightarrow> libxmlStructuredErrorHandlerState \<times> error_globals" where
  "noko__structured_error_func_save_and_set g new_user_data new_handler =
     (\<lparr>user_data = xmlStructuredErrorContext g, handler = xmlStructuredError g\<rparr>,
      \<lparr>xmlStructuredError = new_handler, xmlStructuredErrorContext = new_user_data\<rparr>)"

text \<open>
  \<^verbatim>\<open>noko__structured_error_func_restore(&handler_state)\<close> gets the same struct and
  nothing else: it installs the pair kept there.
\<close>

definition noko__structured_error_func_restore ::
  "libxmlStructuredErrorHandlerState \<Rightarrow> error_globals \<Rightarrow> error_globals" where
  "noko__structured_error_func_restore handler_state g =
     g\<lparr>xmlStructuredError := handler handler_state,
       xmlStructuredErrorContext := user_data handler_state\<rparr>"

text \<open>
  Modelled from the spec: \<^verbatim>\<open>noko__error_raise\<close> is defined in the repository's
  xml\_syntax\_error.c, not in this file. The call fails with the parse error: it
  raises the syntax error that carries the libxml2 error it is given.
\<close>

definition noko__error_raise :: "xmlError option \<Rightarrow> exn" where
  "noko__error_raise e = SyntaxError e"

subsection \<open>native\_write\<close>

text \<open>
  \<^verbatim>\<open>htmlParseChunk(ctx, chunk, size, terminate)\<close> is libxml2's. It runs with the
  globals as the binding left them and may change them and the context. It has two
  ways out. It can return a status: 0, or an error code (\<open>Inr\<close>). Or a SAX callback
  that it calls into Ruby raises: the exception unwinds through \<^verbatim>\<open>htmlParseChunk\<close>
  and through \<^verbatim>\<open>native_write\<close>, which has no \<^verbatim>\<open>rb_ensure\<close> or \<^verbatim>\<open>rb_protect\<close>
  around the call (\<open>Inl\<close>). In both cases the globals and the context are as the
  parser left them. The parser is a parameter of the model.
\<close>

type_synonym 'p htmlParseChunk_fn =
  "error_globals \<Rightarrow> 'p xmlParserCtxt \<Rightarrow> string option \<Rightarrow> int \<Rightarrow> int
     \<Rightarrow> (exn + int) \<times> error_globals \<times> 'p xmlParserCtxt"

text \<open>
  What a call can touch: the two globals, the context that
  \<^verbatim>\<open>noko_xml_sax_push_parser_unwrap(self)\<close> returns, and, to make the calls to the
  parser observable, the list of argument triples \<open>(chunk, size, terminate)\<close> that
  the binding has handed to \<^verbatim>\<open>htmlParseChunk\<close> so far.
\<close>

record 'p world =
  globals :: error_globals
  ctxt :: "'p xmlParserCtxt"
  pushed :: "(string option \<times> int \<times> int) list"

text \<open>Lines 22 to 25: a nil chunk stays \<open>(NULL, 0)\<close>, anything else must convert.\<close>

definition chunk_args :: "VALUE \<Rightarrow> exn + (string option \<times> int)" where
  "chunk_args chunk_v =
     (if Qnil \<noteq> chunk_v
      then (case StringValuePtr chunk_v of
              Inl e \<Rightarrow> Inl e
            | Inr s \<Rightarrow> Inr (Some s, cast_int (RSTRING_LEN s)))
      else Inr (None, 0))"

text \<open>
  Lines 20 to 39. When the parser is left by an exception, lines 31 to 39 are not
  run: the exception is the outcome of the call and the globals stay as the parser
  left them, without the restore.
\<close>

definition native_write ::
  "'p htmlParseChunk_fn \<Rightarrow> 'p world \<Rightarrow> VALUE \<Rightarrow> VALUE \<Rightarrow> VALUE \<Rightarrow> (exn + VALUE) \<times> 'p world" where
  "native_write htmlParseChunk w self chunk_v last_chunk_v =
     (let ctx = ctxt w in
      case chunk_args chunk_v of
        Inl e \<Rightarrow> (Inl e, w)
      | Inr (chunk, sz) \<Rightarrow>
          (let (handler_state, g1) =
                 noko__structured_error_func_save_and_set (globals w) NULL NULL;
               terminate = (if Qtrue = last_chunk_v then 1 else 0);
               (outcome, g2, ctx') = htmlParseChunk g1 ctx chunk sz terminate
           in case outcome of
                Inl e \<Rightarrow>
                  (Inl e, \<lparr>globals = g2, ctxt = ctx',
                           pushed = pushed w @ [(chunk, sz, terminate)]\<rparr>)
              | Inr status \<Rightarrow>
                  (let g3 = noko__structured_error_func_restore handler_state g2;
                       w' = \<lparr>globals = g3, ctxt = ctx',
                             pushed = pushed w @ [(chunk, sz, terminate)]\<rparr>
                   in if status \<noteq> 0 \<and> (xmlCtxtGetOptions ctx' AND XML_PARSE_RECOVER) = 0
                      then (Inl (noko__error_raise (xmlCtxtGetLastError ctx')), w')
                      else (Inr self, w'))))"

subsection \<open>initialize\_native\<close>

text \<open>
  \<^verbatim>\<open>noko_xml_sax_parser_unwrap\<close> (it may raise for a value of the wrong type),
  \<^verbatim>\<open>xmlParseCharEncoding\<close> and \<^verbatim>\<open>htmlCreatePushParserCtxt\<close> (NULL is \<open>None\<close>) are
  parameters as well. The SAX handler struct is identified by a number.
\<close>

type_synonym 'p htmlCreatePushParserCtxt_fn =
  "nat \<Rightarrow> pointer \<Rightarrow> string option \<Rightarrow> int \<Rightarrow> string option \<Rightarrow> int
     \<Rightarrow> 'p xmlParserCtxt option"

text \<open>Line 63.\<close>

definition filename_arg :: "VALUE \<Rightarrow> exn + string option" where
  "filename_arg filename_v =
     (if filename_v \<noteq> Qnil
      then (case StringValueCStr filename_v of Inl e \<Rightarrow> Inl e | Inr f \<Rightarrow> Inr (Some f))
      else Inr None)"

text \<open>Lines 59 and 65 to 70.\<close>

definition encoding_arg :: "(string \<Rightarrow> int) \<Rightarrow> VALUE \<Rightarrow> exn + int" where
  "encoding_arg xmlParseCharEncoding encoding =
     (if encoding \<noteq> Qnil
      then (case StringValueCStr encoding of
              Inl e \<Rightarrow> Inl e
            | Inr name \<Rightarrow>
                (let enc = xmlParseCharEncoding name
                 in if enc = XML_CHAR_ENCODING_ERROR
                    then Inl (ArgError ''Unsupported Encoding'')
                    else Inr enc))
      else Inr XML_CHAR_ENCODING_NONE)"

text \<open>
  The result \<open>Inr (self, ctx)\<close> is the receiver together with the context that
  \<^verbatim>\<open>DATA_PTR(self)\<close> now points to.
\<close>

definition initialize_native ::
  "(VALUE \<Rightarrow> exn + nat) \<Rightarrow> (string \<Rightarrow> int) \<Rightarrow> 'p htmlCreatePushParserCtxt_fn
     \<Rightarrow> VALUE \<Rightarrow> VALUE \<Rightarrow> VALUE \<Rightarrow> VALUE \<Rightarrow> exn + (VALUE \<times> 'p xmlParserCtxt)" where
  "initialize_native noko_xml_sax_parser_unwrap xmlParseCharEncoding htmlCreatePushParserCtxt
       self xml_sax filename_v encoding =
     (case noko_xml_sax_parser_unwrap xml_sax of
        Inl e \<Rightarrow> Inl e
      | Inr sax \<Rightarrow>
          (case filename_arg filename_v of
             Inl e \<Rightarrow> Inl e
           | Inr filename \<Rightarrow>
               (case encoding_arg xmlParseCharEncoding encoding of
                  Inl e \<Rightarrow> Inl e
                | Inr enc \<Rightarrow>
                    (case htmlCreatePushParserCtxt sax NULL None 0 filename enc of
                       None \<Rightarrow> Inl (RuntimeError ''Could not create a parser context'')
                     | Some ctx \<Rightarrow>
                         Inr (self, ctx\<lparr>userData_is_ctxt := True,
                                        private_data := Some xml_sax\<rparr>)))))"

subsection \<open>A stand-in for libxml2, to run the binding on concrete inputs\<close>

text \<open>
  The theorems below hold for every parser. Their instances at concrete inputs need
  one. The stand-in is not libxml2's HTML parser; it keeps the convention of
  \<^verbatim>\<open>htmlParseChunk\<close> that the binding depends on, namely that the status returned is
  the context's error number: 0 until an error is recorded, and from then on the code
  of the latest error, also in later calls. It records error 81
  (\<^verbatim>\<open>XML_ERR_INVALID_ENCODING\<close>) for a chunk holding the byte 0xFF, which no UTF-8
  text contains, and error 76 (\<^verbatim>\<open>XML_ERR_TAG_NAME_MISMATCH\<close>, libxml2's "Unexpected end
  tag") for a chunk that starts with an end tag. It reads \<open>size\<close> bytes of the chunk,
  leaves the globals alone and always returns.
\<close>

record stub_parser =
  errNo :: int
  received :: string
  terminated :: bool
  sax_handler :: nat
  input_filename :: "string option"
  charset :: int

definition stub_error :: "string \<Rightarrow> xmlError option" where
  "stub_error bytes =
     (if CHR 0xFF \<in> set bytes
      then Some \<lparr>code = 81, message = ''Input is not proper UTF-8, indicate encoding !''\<rparr>
      else if take 2 bytes = ''</''
      then Some \<lparr>code = 76, message = ''Unexpected end tag''\<rparr>
      else None)"

definition stub_htmlParseChunk :: "stub_parser htmlParseChunk_fn" where
  "stub_htmlParseChunk g ctx chunk sz terminate =
     (let bytes = (case chunk of None \<Rightarrow> [] | Some s \<Rightarrow> take (nat sz) s);
          p = parser_state ctx;
          p' = p\<lparr>received := received p @ bytes,
                 terminated := (if terminate = 0 then terminated p else True),
                 errNo := (case stub_error bytes of None \<Rightarrow> errNo p | Some e \<Rightarrow> code e)\<rparr>;
          ctx' = ctx\<lparr>lastError := (case stub_error bytes of
                                      None \<Rightarrow> lastError ctx | Some e \<Rightarrow> e),
                     parser_state := p'\<rparr>
      in (Inr (errNo p'), g, ctx'))"

text \<open>The encodings the stand-in knows, with libxml2's numbers for them.\<close>

definition stub_xmlParseCharEncoding :: "string \<Rightarrow> int" where
  "stub_xmlParseCharEncoding name =
     (case map_of [([], 0), (''UTF-8'', 1), (''ISO-8859-1'', 10), (''ASCII'', 22)] name of
        None \<Rightarrow> XML_CHAR_ENCODING_ERROR
      | Some enc \<Rightarrow> enc)"

definition stub_htmlCreatePushParserCtxt :: "stub_parser htmlCreatePushParserCtxt_fn" where
  "stub_htmlCreatePushParserCtxt sax udata chunk sz filename enc =
     Some \<lparr>userData_is_ctxt = False, private_data = None, options = 0,
           lastError = \<lparr>code = 0, message = []\<rparr>,
           parser_state = \<lparr>errNo = 0, received = [], terminated = False,
                            sax_handler = sax, input_filename = filename,
                            charset = enc\<rparr>\<rparr>"

definition stub_unwrap :: "VALUE \<Rightarrow> exn + nat" where
  "stub_unwrap v = (case v of RObject n \<Rightarrow> Inr n | _ \<Rightarrow> Inl TypeError)"

text \<open>
  A fresh context with the given options, and the worlds around it:
  \<open>strict_world\<close> has no option set, \<open>recover_world\<close> has
  \<^verbatim>\<open>XML_PARSE_RECOVER\<close>; in both an application handler is installed, so that a
  restore is visible.
\<close>

definition stub_ctxt :: "int \<Rightarrow> stub_parser xmlParserCtxt" where
  "stub_ctxt opts =
     \<lparr>userData_is_ctxt = True, private_data = Some (RObject 7), options = opts,
      lastError = \<lparr>code = 0, message = []\<rparr>,
      parser_state = \<lparr>errNo = 0, received = [], terminated = False,
                       sax_handler = 7, input_filename = None, charset = 0\<rparr>\<rparr>"

definition stub_world :: "int \<Rightarrow> stub_parser world" where
  "stub_world opts =
     \<lparr>globals = \<lparr>xmlStructuredError = Addr 1, xmlStructuredErrorContext = Addr 2\<rparr>,
      ctxt = stub_ctxt opts, pushed = []\<rparr>"

definition strict_world :: "stub_parser world" where
  "strict_world = stub_world 0"

definition recover_world :: "stub_parser world" where
  "recover_world = stub_world XML_PARSE_RECOVER"

text \<open>
  A second stand-in, for a document handler that raises. It acts as the first one,
  except that for a chunk without error that opens a tag it calls the handler's
  start-element callback, and the callback raises: the exception leaves the parser
  with the globals and the context as they are at that point.
\<close>

definition raising_htmlParseChunk :: "stub_parser htmlParseChunk_fn" where
  "raising_htmlParseChunk g ctx chunk sz terminate =
     (let bytes = (case chunk of None \<Rightarrow> [] | Some s \<Rightarrow> take (nat sz) s);
          (outcome, g', ctx') = stub_htmlParseChunk g ctx chunk sz terminate
      in if stub_error bytes = None \<and> take 1 bytes = ''<''
         then (Inl (RuntimeError ''raised in start_element''), g', ctx')
         else (outcome, g', ctx'))"

text \<open>
  Two sessions reached by earlier calls on \<open>strict_world\<close>: one after a chunk
  without an error, and one after a chunk whose error made the call raise (the caller
  rescued the exception and still holds the parser).
\<close>

definition fed_world :: "stub_parser world" where
  "fed_world =
     snd (native_write stub_htmlParseChunk strict_world (RObject 3) (RString ''<p>'') Qfalse)"

definition failed_world :: "stub_parser world" where
  "failed_world =
     snd (native_write stub_htmlParseChunk strict_world (RObject 3) (RString ''</b>'') Qfalse)"

text \<open>
  The globals as \<^verbatim>\<open>noko__structured_error_func_save_and_set(&handler_state, NULL, NULL)\<close>
  leaves them: this is what the parser runs with.
\<close>

definition no_handler :: error_globals where
  "no_handler = \<lparr>xmlStructuredError = NULL, xmlStructuredErrorContext = NULL\<rparr>"

text \<open>
  A chunk of \<open>2\<^sup>3\<^sup>1\<close> bytes, one more than the largest \<^verbatim>\<open>int\<close>, and its half.
\<close>

definition half_chunk :: string where
  "half_chunk = replicate (2 ^ 30) (CHR ''a'')"

definition huge_chunk :: string where
  "huge_chunk = half_chunk @ half_chunk"

section \<open>Properties\<close>

subsection \<open>Auxiliary facts\<close>

lemma save_and_set_NULL:
  "noko__structured_error_func_save_and_set g NULL NULL =
     (\<lparr>user_data = xmlStructuredErrorContext g, handler = xmlStructuredError g\<rparr>, no_handler)"
  by (simp add: noko__structured_error_func_save_and_set_def no_handler_def)

lemma restore_saved:
  "noko__structured_error_func_restore
     \<lparr>user_data = xmlStructuredErrorContext g, handler = xmlStructuredError g\<rparr> g2 = g"
  by (simp add: noko__structured_error_func_restore_def)

lemma chunk_args_nil: "chunk_args Qnil = Inr (None, 0)"
  by (simp add: chunk_args_def)

lemma chunk_args_string: "chunk_args (RString s) = Inr (Some s, cast_int (RSTRING_LEN s))"
  by (simp add: chunk_args_def)

lemma chunk_args_other:
  "chunk_v \<noteq> Qnil \<Longrightarrow> \<forall>s. chunk_v \<noteq> RString s \<Longrightarrow> chunk_args chunk_v = Inl TypeError"
  by (cases chunk_v) (simp_all add: chunk_args_def)

text \<open>A chunk shorter than \<open>2\<^sup>3\<^sup>1\<close> bytes is passed with its true length.\<close>

lemma cast_int_small:
  assumes "length s < 2 ^ 31"
  shows "cast_int (RSTRING_LEN s) = int (length s)"
proof -
  have "int (length s) < 2 ^ 31"
    using assms by (metis of_nat_less_iff of_nat_numeral of_nat_power)
  moreover have "- (2 ^ 31) \<le> int (length s)" by simp
  ultimately have "signed_take_bit 31 (int (length s)) = int (length s)"
    by (rule signed_take_bit_int_eq_self [rotated])
  then show ?thesis
    by (simp add: cast_int_def RSTRING_LEN_def signed_of_nat)
qed

text \<open>
  The whole of a call whose chunk converts, in terms of what the parser answers.
\<close>

lemma native_write_converted:
  assumes conv: "chunk_args chunk_v = Inr (chunk, sz)"
      and ans: "htmlParseChunk no_handler (ctxt w) chunk sz (if Qtrue = last_chunk_v then 1 else 0)
                  = (Inr status, g', ctx')"
  shows "native_write htmlParseChunk w self chunk_v last_chunk_v =
           (if status \<noteq> 0 \<and> (xmlCtxtGetOptions ctx' AND XML_PARSE_RECOVER) = 0
            then Inl (SyntaxError (xmlCtxtGetLastError ctx'))
            else Inr self,
            \<lparr>globals = globals w, ctxt = ctx',
             pushed = pushed w @ [(chunk, sz, if Qtrue = last_chunk_v then 1 else 0)]\<rparr>)"
  using ans
  by (simp add: native_write_def conv save_and_set_NULL restore_saved noko__error_raise_def)

text \<open>
  The same when the parser is left by an exception: the exception is the outcome and
  the globals are the ones the parser left, since line 31 is not reached.
\<close>

lemma native_write_parser_raises:
  assumes conv: "chunk_args chunk_v = Inr (chunk, sz)"
      and ans: "htmlParseChunk no_handler (ctxt w) chunk sz (if Qtrue = last_chunk_v then 1 else 0)
                  = (Inl e, g', ctx')"
  shows "native_write htmlParseChunk w self chunk_v last_chunk_v =
           (Inl e,
            \<lparr>globals = g', ctxt = ctx',
             pushed = pushed w @ [(chunk, sz, if Qtrue = last_chunk_v then 1 else 0)]\<rparr>)"
  using ans
  by (simp add: native_write_def conv save_and_set_NULL)

lemma native_write_not_converted:
  "chunk_args chunk_v = Inl e \<Longrightarrow>
     native_write htmlParseChunk w self chunk_v last_chunk_v = (Inl e, w)"
  by (simp add: native_write_def)

text \<open>
  A chunk that is neither nil nor a String: the conversion raises before anything
  else is done.
\<close>

lemma native_write_type_error:
  "chunk_v \<noteq> Qnil \<Longrightarrow> \<forall>s. chunk_v \<noteq> RString s \<Longrightarrow>
     native_write htmlParseChunk w self chunk_v last_chunk_v = (Inl TypeError, w)"
  by (simp add: native_write_not_converted chunk_args_other)

lemmas stub_defs =
  stub_htmlParseChunk_def stub_error_def strict_world_def recover_world_def stub_world_def
  stub_ctxt_def RSTRING_LEN_def cast_int_def xmlCtxtGetOptions_def xmlCtxtGetLastError_def
  XML_PARSE_RECOVER_def no_handler_def

lemmas run_defs =
  native_write_def chunk_args_def noko__structured_error_func_save_and_set_def
  noko__structured_error_func_restore_def noko__error_raise_def Let_def stub_defs

lemma failed_world_eq:
  "failed_world =
     \<lparr>globals = \<lparr>xmlStructuredError = Addr 1, xmlStructuredErrorContext = Addr 2\<rparr>,
      ctxt = \<lparr>userData_is_ctxt = True, private_data = Some (RObject 7), options = 0,
               lastError = \<lparr>code = 76, message = ''Unexpected end tag''\<rparr>,
               parser_state = \<lparr>errNo = 76, received = ''</b>'', terminated = False,
                                sax_handler = 7, input_filename = None, charset = 0\<rparr>\<rparr>,
      pushed = [(Some ''</b>'', 4, 0)]\<rparr>"
  by (simp add: failed_world_def run_defs)

lemma fed_world_eq:
  "fed_world =
     \<lparr>globals = \<lparr>xmlStructuredError = Addr 1, xmlStructuredErrorContext = Addr 2\<rparr>,
      ctxt = \<lparr>userData_is_ctxt = True, private_data = Some (RObject 7), options = 0,
               lastError = \<lparr>code = 0, message = []\<rparr>,
               parser_state = \<lparr>errNo = 0, received = ''<p>'', terminated = False,
                                sax_handler = 7, input_filename = None, charset = 0\<rparr>\<rparr>,
      pushed = [(Some ''<p>'', 3, 0)]\<rparr>"
  by (simp add: fed_world_def run_defs)

subsection \<open>Recover mode\<close>

text \<open>
  C1. With \<^verbatim>\<open>XML_PARSE_RECOVER\<close> set on the parser context, \<^verbatim>\<open>native_write\<close>
  never raises a parse error, whatever bytes the chunk holds and whatever status the
  parser returns: the call returns the receiver. With \<^verbatim>\<open>last_chunk\<close> true the
  parser has been handed the chunk with \<open>terminate = 1\<close>, which is how the session
  ends. The option is read on line 33, after the parser has returned, so the
  hypothesis speaks of the context as the parser leaves it; a parser that does not
  touch the options leaves the session's own setting there.
\<close>

theorem recover_mode_never_raises:
  assumes "htmlParseChunk no_handler (ctxt w) (Some s) (cast_int (RSTRING_LEN s))
             (if Qtrue = last_chunk_v then 1 else 0) = (Inr status, g', ctx')"
      and "(xmlCtxtGetOptions ctx' AND XML_PARSE_RECOVER) \<noteq> 0"
  shows "fst (native_write htmlParseChunk w self (RString s) last_chunk_v) = Inr self
       \<and> ctxt (snd (native_write htmlParseChunk w self (RString s) last_chunk_v)) = ctx'
       \<and> pushed (snd (native_write htmlParseChunk w self (RString s) last_chunk_v)) =
           pushed w @ [(Some s, cast_int (RSTRING_LEN s), if Qtrue = last_chunk_v then 1 else 0)]"
  using assms(2)
    native_write_converted [where htmlParseChunk = htmlParseChunk and self = self,
      OF chunk_args_string assms(1)]
  by simp

text \<open>
  An instance: a recover-mode session is given an unexpected end tag as its last
  chunk. The parser reports status 76; the call returns the receiver.
\<close>

theorem recover_mode_never_raises_witness:
  "fst (stub_htmlParseChunk no_handler (ctxt recover_world) (Some ''</b>'') 4 1) = Inr 76
   \<and> (xmlCtxtGetOptions (snd (snd (stub_htmlParseChunk no_handler (ctxt recover_world)
          (Some ''</b>'') 4 1))) AND XML_PARSE_RECOVER) \<noteq> 0
   \<and> fst (native_write stub_htmlParseChunk recover_world (RObject 3) (RString ''</b>'') Qtrue)
        = Inr (RObject 3)
   \<and> pushed (snd (native_write stub_htmlParseChunk recover_world (RObject 3)
        (RString ''</b>'') Qtrue)) = [(Some ''</b>'', 4, 1)]"
proof -
  obtain g' ctx' where a1:
    "stub_htmlParseChunk no_handler (ctxt recover_world) (Some ''</b>'')
       (cast_int (RSTRING_LEN ''</b>'')) (if Qtrue = Qtrue then 1 else 0) = (Inr 76, g', ctx')"
    by (simp add: stub_defs)
  have a2: "(xmlCtxtGetOptions ctx' AND XML_PARSE_RECOVER) \<noteq> 0"
    using a1 by (auto simp: stub_defs)
  have p: "pushed recover_world = []" by (simp add: stub_defs)
  from recover_mode_never_raises
         [where htmlParseChunk = stub_htmlParseChunk and self = "RObject 3", OF a1 a2] a1 a2
  show ?thesis by (simp add: p RSTRING_LEN_def cast_int_def)
qed

text \<open>
  The same for a parser that leaves the options of the context alone: when it
  returns, the option as the session has it before the call decides, for a nil chunk
  as well.
\<close>

lemma recover_session_never_raises:
  assumes keeps: "\<And>g c ch n t.
            xmlCtxtGetOptions (snd (snd (htmlParseChunk g c ch n t))) = xmlCtxtGetOptions c"
      and rec: "(xmlCtxtGetOptions (ctxt w) AND XML_PARSE_RECOVER) \<noteq> 0"
      and conv: "chunk_args chunk_v = Inr (chunk, sz)"
      and ans: "htmlParseChunk no_handler (ctxt w) chunk sz
                  (if Qtrue = last_chunk_v then 1 else 0) = (Inr status, g', ctx')"
  shows "fst (native_write htmlParseChunk w self chunk_v last_chunk_v) = Inr self"
proof -
  have "xmlCtxtGetOptions ctx' = xmlCtxtGetOptions (ctxt w)"
    using keeps [of no_handler "ctxt w" chunk sz "if Qtrue = last_chunk_v then 1 else 0"] ans
    by simp
  with rec show ?thesis
    using native_write_converted [where htmlParseChunk = htmlParseChunk and self = self,
        OF conv ans]
    by simp
qed

subsection \<open>The structured error handler\<close>

text \<open>
  On the ways out that the code provides for, the handler is as before the call:
  when the chunk does not convert (the call raises before line 27), when the call
  returns, and when it raises the parse error. This rests on the reading of the two
  helpers given with their definitions.
\<close>

lemma handler_kept_when_parser_returns:
  assumes "chunk_args chunk_v = Inr (chunk, sz)"
      and "htmlParseChunk no_handler (ctxt w) chunk sz (if Qtrue = last_chunk_v then 1 else 0)
             = (Inr status, g', ctx')"
  shows "globals (snd (native_write htmlParseChunk w self chunk_v last_chunk_v)) = globals w"
  using native_write_converted [where htmlParseChunk = htmlParseChunk and self = self,
      OF assms]
  by simp

lemma handler_kept_when_not_converted:
  "chunk_args chunk_v = Inl e \<Longrightarrow>
     globals (snd (native_write htmlParseChunk w self chunk_v last_chunk_v)) = globals w"
  by (simp add: native_write_not_converted)

text \<open>
  C10 fails on the code on one way out. The save on line 27 and the restore on line
  31 are meant to bracket the parser call, but nothing makes the restore run when the
  call is left by an exception. A document handler that raises from its start-element
  callback is given \<open><p>\<close>: the exception leaves \<^verbatim>\<open>native_write\<close>, and the
  application's handler, installed before the call, has been replaced by the
  \<open>(NULL, NULL)\<close> of line 27.
\<close>

theorem callback_exception_skips_restore:
  "globals strict_world = \<lparr>xmlStructuredError = Addr 1, xmlStructuredErrorContext = Addr 2\<rparr>
   \<and> fst (native_write raising_htmlParseChunk strict_world (RObject 3) (RString ''<p>'') Qfalse)
        = Inl (RuntimeError ''raised in start_element'')
   \<and> globals (snd (native_write raising_htmlParseChunk strict_world (RObject 3)
        (RString ''<p>'') Qfalse))
        = \<lparr>xmlStructuredError = NULL, xmlStructuredErrorContext = NULL\<rparr>"
  by (simp add: raising_htmlParseChunk_def run_defs)

subsection \<open>Strict mode\<close>

text \<open>
  C2, as stated, does not hold: the binding has no Failed state and no error for
  feeding a failed session. A strict session is given an unexpected end tag and the
  call raises the syntax error. The next call on the same parser hands its chunk to
  the parser again (the parser has received both chunks, and both calls are in
  \<open>pushed\<close>), and what it raises is again the parser's syntax error.
\<close>

theorem failed_session_parses_again:
  "fst (native_write stub_htmlParseChunk strict_world (RObject 3) (RString ''</b>'') Qfalse)
     = Inl (SyntaxError (Some \<lparr>code = 76, message = ''Unexpected end tag''\<rparr>))
   \<and> fst (native_write stub_htmlParseChunk failed_world (RObject 3) (RString ''<p>'') Qfalse)
     = Inl (SyntaxError (Some \<lparr>code = 76, message = ''Unexpected end tag''\<rparr>))
   \<and> pushed (snd (native_write stub_htmlParseChunk failed_world (RObject 3)
        (RString ''<p>'') Qfalse)) = [(Some ''</b>'', 4, 0), (Some ''<p>'', 3, 0)]
   \<and> received (parser_state (ctxt (snd (native_write stub_htmlParseChunk failed_world
        (RObject 3) (RString ''<p>'') Qfalse)))) = ''</b><p>''"
  by (simp add: failed_world_eq) (simp add: run_defs)

text \<open>
  C2, amended. With \<^verbatim>\<open>XML_PARSE_RECOVER\<close> not set, a call for which the parser
  returns a nonzero status raises the syntax error that carries the context's last
  error. Any later call on the same parser, whatever its chunk, is handled like a
  first one: the chunk goes to \<^verbatim>\<open>htmlParseChunk\<close> on the context the failed call
  left, and the call raises or returns by the same test of status and option.
\<close>

theorem strict_mode_raises_and_parses_again:
  assumes "chunk_args chunk_v = Inr (chunk, sz)"
      and "htmlParseChunk no_handler (ctxt w) chunk sz (if Qtrue = last_chunk_v then 1 else 0)
             = (Inr status, g', ctx')"
      and "status \<noteq> 0"
      and "(xmlCtxtGetOptions ctx' AND XML_PARSE_RECOVER) = 0"
      and "chunk_args chunk_v2 = Inr (chunk2, sz2)"
      and "htmlParseChunk no_handler ctx' chunk2 sz2 (if Qtrue = last_chunk_v2 then 1 else 0)
             = (Inr status2, g'', ctx'')"
  shows "fst (native_write htmlParseChunk w self chunk_v last_chunk_v)
           = Inl (SyntaxError (xmlCtxtGetLastError ctx'))
       \<and> native_write htmlParseChunk
           (snd (native_write htmlParseChunk w self chunk_v last_chunk_v))
           self chunk_v2 last_chunk_v2
           = (if status2 \<noteq> 0 \<and> (xmlCtxtGetOptions ctx'' AND XML_PARSE_RECOVER) = 0
              then Inl (SyntaxError (xmlCtxtGetLastError ctx''))
              else Inr self,
              \<lparr>globals = globals w, ctxt = ctx'',
               pushed = pushed w @
                 [(chunk, sz, if Qtrue = last_chunk_v then 1 else 0),
                  (chunk2, sz2, if Qtrue = last_chunk_v2 then 1 else 0)]\<rparr>)"
proof -
  let ?w' = "\<lparr>globals = globals w, ctxt = ctx',
              pushed = pushed w @ [(chunk, sz, if Qtrue = last_chunk_v then 1 else 0)]\<rparr>"
  have first: "native_write htmlParseChunk w self chunk_v last_chunk_v
                 = (Inl (SyntaxError (xmlCtxtGetLastError ctx')), ?w')"
    using native_write_converted [where htmlParseChunk = htmlParseChunk and self = self,
        OF assms(1) assms(2)] assms(3) assms(4)
    by simp
  have ans2: "htmlParseChunk no_handler (ctxt ?w') chunk2 sz2
                (if Qtrue = last_chunk_v2 then 1 else 0) = (Inr status2, g'', ctx'')"
    using assms(6) by simp
  have second: "native_write htmlParseChunk ?w' self chunk_v2 last_chunk_v2
                 = (if status2 \<noteq> 0 \<and> (xmlCtxtGetOptions ctx'' AND XML_PARSE_RECOVER) = 0
                    then Inl (SyntaxError (xmlCtxtGetLastError ctx''))
                    else Inr self,
                    \<lparr>globals = globals ?w', ctxt = ctx'',
                     pushed = pushed ?w' @
                       [(chunk2, sz2, if Qtrue = last_chunk_v2 then 1 else 0)]\<rparr>)"
    by (rule native_write_converted [where htmlParseChunk = htmlParseChunk,
          OF assms(5) ans2])
  show ?thesis
    unfolding first using second by simp
qed

text \<open>
  An instance: the strict session above raises on the end tag, and a later
  \<^verbatim>\<open>native_write(nil, true)\<close> reaches the parser all the same.
\<close>

theorem strict_mode_raises_and_parses_again_witness:
  "chunk_args (RString ''</b>'') = Inr (Some ''</b>'', 4)
   \<and> fst (stub_htmlParseChunk no_handler (ctxt strict_world) (Some ''</b>'') 4 0) = Inr 76
   \<and> (xmlCtxtGetOptions (ctxt failed_world) AND XML_PARSE_RECOVER) = 0
   \<and> chunk_args Qnil = Inr (None, 0)
   \<and> fst (native_write stub_htmlParseChunk strict_world (RObject 3) (RString ''</b>'') Qfalse)
        = Inl (SyntaxError (xmlCtxtGetLastError (ctxt failed_world)))
   \<and> pushed (snd (native_write stub_htmlParseChunk failed_world (RObject 3) Qnil Qtrue))
        = [(Some ''</b>'', 4, 0), (None, 0, 1)]"
proof -
  have a1: "chunk_args (RString ''</b>'') = Inr (Some ''</b>'', 4)"
    by (simp add: chunk_args_def RSTRING_LEN_def cast_int_def)
  have a2: "stub_htmlParseChunk no_handler (ctxt strict_world) (Some ''</b>'') 4
              (if Qtrue = Qfalse then 1 else 0) = (Inr 76, no_handler, ctxt failed_world)"
    by (simp add: failed_world_eq stub_defs)
  have a3: "(76::int) \<noteq> 0" by simp
  have a4: "(xmlCtxtGetOptions (ctxt failed_world) AND XML_PARSE_RECOVER) = 0"
    by (simp add: failed_world_eq stub_defs)
  have a5: "chunk_args Qnil = Inr (None, 0)" by (rule chunk_args_nil)
  obtain status2 g2 ctx2 where a6:
    "stub_htmlParseChunk no_handler (ctxt failed_world) None 0
       (if Qtrue = Qtrue then 1 else 0) = (Inr status2, g2, ctx2)"
    by (simp add: stub_htmlParseChunk_def Let_def)
  have w: "snd (native_write stub_htmlParseChunk strict_world (RObject 3)
             (RString ''</b>'') Qfalse) = failed_world"
    by (simp add: failed_world_def)
  have p: "pushed strict_world = []" by (simp add: stub_defs)
  from strict_mode_raises_and_parses_again
         [where htmlParseChunk = stub_htmlParseChunk and self = "RObject 3",
          OF a1 a2 a3 a4 a5 a6] a1 a2 a4 a5
  show ?thesis by (simp add: w p)
qed

subsection \<open>Decode failures\<close>

text \<open>
  C3, as stated, does not hold: the binding sees a decode failure only as a nonzero
  status, and in recover mode no status makes it raise. A recover-mode session is
  given the byte 0xFF; the parser reports \<^verbatim>\<open>XML_ERR_INVALID_ENCODING\<close> (81), and
  the call returns the receiver.
\<close>

theorem decode_failure_in_recover_mode_returns:
  "fst (stub_htmlParseChunk no_handler (ctxt recover_world) (Some [CHR 0xFF]) 1 0) = Inr 81
   \<and> fst (native_write stub_htmlParseChunk recover_world (RObject 3) (RString [CHR 0xFF]) Qfalse)
        = Inr (RObject 3)"
  by (simp add: run_defs)

text \<open>
  C3, amended. A decode failure, like every other error that the parser reports by a
  nonzero status, makes \<^verbatim>\<open>native_write\<close> raise exactly when
  \<^verbatim>\<open>XML_PARSE_RECOVER\<close> is not set on the context; with the option set the call
  returns the receiver.
\<close>

theorem parser_error_raises_iff_strict:
  assumes "chunk_args chunk_v = Inr (chunk, sz)"
      and "htmlParseChunk no_handler (ctxt w) chunk sz (if Qtrue = last_chunk_v then 1 else 0)
             = (Inr status, g', ctx')"
      and "status \<noteq> 0"
  shows "fst (native_write htmlParseChunk w self chunk_v last_chunk_v) =
           (if (xmlCtxtGetOptions ctx' AND XML_PARSE_RECOVER) = 0
            then Inl (SyntaxError (xmlCtxtGetLastError ctx'))
            else Inr self)"
  using assms(3)
    native_write_converted [where htmlParseChunk = htmlParseChunk and self = self,
      OF assms(1) assms(2)]
  by simp

text \<open>
  An instance: the byte 0xFF fed to a strict session. The status is 81 and the call
  raises the syntax error with that code.
\<close>

theorem parser_error_raises_iff_strict_witness:
  "chunk_args (RString [CHR 0xFF]) = Inr (Some [CHR 0xFF], 1)
   \<and> fst (stub_htmlParseChunk no_handler (ctxt strict_world) (Some [CHR 0xFF]) 1 0) = Inr 81
   \<and> fst (native_write stub_htmlParseChunk strict_world (RObject 3) (RString [CHR 0xFF]) Qfalse)
        = Inl (SyntaxError (Some \<lparr>code = 81,
            message = ''Input is not proper UTF-8, indicate encoding !''\<rparr>))"
proof -
  have a1: "chunk_args (RString [CHR 0xFF]) = Inr (Some [CHR 0xFF], 1)"
    by (simp add: chunk_args_def RSTRING_LEN_def cast_int_def)
  obtain g' ctx' where a2:
    "stub_htmlParseChunk no_handler (ctxt strict_world) (Some [CHR 0xFF]) 1
       (if Qtrue = Qfalse then 1 else 0) = (Inr 81, g', ctx')"
    by (simp add: stub_defs)
  have a3: "(81::int) \<noteq> 0" by simp
  from parser_error_raises_iff_strict
         [where htmlParseChunk = stub_htmlParseChunk and self = "RObject 3", OF a1 a2 a3]
       a1 a2
  show ?thesis by (auto simp: stub_defs)
qed

subsection \<open>The last chunk\<close>

text \<open>
  C5, as stated, does not hold for every session that is being fed: the last call
  is subject to the same test as any other. A strict session has taken a first chunk
  without error; its last chunk holds an unexpected end tag, and the call raises.
\<close>

theorem strict_last_chunk_raises:
  "fst (native_write stub_htmlParseChunk strict_world (RObject 3) (RString ''<p>'') Qfalse)
     = Inr (RObject 3)
   \<and> fst (native_write stub_htmlParseChunk fed_world (RObject 3) (RString ''</b>'') Qtrue)
     = Inl (SyntaxError (Some \<lparr>code = 76, message = ''Unexpected end tag''\<rparr>))
   \<and> pushed (snd (native_write stub_htmlParseChunk fed_world (RObject 3)
        (RString ''</b>'') Qtrue)) = [(Some ''<p>'', 3, 0), (Some ''</b>'', 4, 1)]"
  by (simp add: fed_world_eq) (simp add: run_defs)

text \<open>
  C5, amended. A call with \<^verbatim>\<open>last_chunk\<close> true hands the chunk to the parser with
  \<open>terminate = 1\<close> (flushing what is buffered and ending the document are the
  parser's part) and keeps the context the parser leaves. It returns the receiver
  whenever the status is 0 or \<^verbatim>\<open>XML_PARSE_RECOVER\<close> is set, so errors met in recover
  mode never make it fail; with a nonzero status and the option not set it raises the
  parse error.
\<close>

theorem last_chunk_terminates:
  assumes "chunk_args chunk_v = Inr (chunk, sz)"
      and "htmlParseChunk no_handler (ctxt w) chunk sz 1 = (Inr status, g', ctx')"
  shows "pushed (snd (native_write htmlParseChunk w self chunk_v Qtrue))
           = pushed w @ [(chunk, sz, 1)]
       \<and> ctxt (snd (native_write htmlParseChunk w self chunk_v Qtrue)) = ctx'
       \<and> fst (native_write htmlParseChunk w self chunk_v Qtrue) =
           (if status = 0 \<or> (xmlCtxtGetOptions ctx' AND XML_PARSE_RECOVER) \<noteq> 0
            then Inr self
            else Inl (SyntaxError (xmlCtxtGetLastError ctx')))"
proof -
  have ans: "htmlParseChunk no_handler (ctxt w) chunk sz (if Qtrue = Qtrue then 1 else 0)
               = (Inr status, g', ctx')"
    using assms(2) by simp
  show ?thesis
    using native_write_converted [where htmlParseChunk = htmlParseChunk and self = self,
        OF assms(1) ans]
    by simp
qed

text \<open>
  An instance: a recover-mode session ends with an unexpected end tag. The status is
  76, the parser has been told to terminate, and the call returns the receiver.
\<close>

theorem last_chunk_terminates_witness:
  "chunk_args (RString ''</b>'') = Inr (Some ''</b>'', 4)
   \<and> fst (stub_htmlParseChunk no_handler (ctxt recover_world) (Some ''</b>'') 4 1) = Inr 76
   \<and> pushed (snd (native_write stub_htmlParseChunk recover_world (RObject 3)
        (RString ''</b>'') Qtrue)) = [(Some ''</b>'', 4, 1)]
   \<and> terminated (parser_state (ctxt (snd (native_write stub_htmlParseChunk recover_world
        (RObject 3) (RString ''</b>'') Qtrue))))
   \<and> fst (native_write stub_htmlParseChunk recover_world (RObject 3) (RString ''</b>'') Qtrue)
        = Inr (RObject 3)"
proof -
  have a1: "chunk_args (RString ''</b>'') = Inr (Some ''</b>'', 4)"
    by (simp add: chunk_args_def RSTRING_LEN_def cast_int_def)
  obtain g' ctx' where a2:
    "stub_htmlParseChunk no_handler (ctxt recover_world) (Some ''</b>'') 4 1 = (Inr 76, g', ctx')"
    by (simp add: stub_defs)
  have t: "terminated (parser_state ctx')" and o: "options ctx' = 1"
    using a2 by (auto simp: stub_defs)
  from last_chunk_terminates
         [where htmlParseChunk = stub_htmlParseChunk and self = "RObject 3", OF a1 a2]
       a1 a2 t o
  show ?thesis by (simp add: stub_defs)
qed

subsection \<open>Empty and nil chunks\<close>

text \<open>
  C6, as stated, does not hold: the binding has no branch for an empty chunk. It
  calls the parser with size 0 and tests the status as always. On the strict session
  whose earlier call raised, the parser's status is still 76, and
  \<^verbatim>\<open>native_write("", false)\<close> raises.
\<close>

theorem empty_chunk_raises:
  "fst (stub_htmlParseChunk no_handler (ctxt failed_world) (Some []) 0 0) = Inr 76
   \<and> fst (native_write stub_htmlParseChunk failed_world (RObject 3) (RString []) Qfalse)
        = Inl (SyntaxError (Some \<lparr>code = 76, message = ''Unexpected end tag''\<rparr>))"
  by (simp add: failed_world_eq) (simp add: run_defs)

text \<open>
  C6, amended. A call with an empty chunk and \<^verbatim>\<open>last_chunk\<close> not true hands the
  parser a chunk of size 0 with \<open>terminate = 0\<close>. The binding adds nothing of its
  own: the globals are as before, the context is the one the parser leaves, and the
  call returns the receiver unless the status is nonzero while
  \<^verbatim>\<open>XML_PARSE_RECOVER\<close> is not set, in which case it raises the parse error. So the
  call is a no-op exactly as far as the parser makes it one.
\<close>

theorem empty_chunk_is_forwarded:
  assumes "Qtrue \<noteq> last_chunk_v"
      and "htmlParseChunk no_handler (ctxt w) (Some []) 0 0 = (Inr status, g', ctx')"
  shows "native_write htmlParseChunk w self (RString []) last_chunk_v =
           (if status \<noteq> 0 \<and> (xmlCtxtGetOptions ctx' AND XML_PARSE_RECOVER) = 0
            then Inl (SyntaxError (xmlCtxtGetLastError ctx'))
            else Inr self,
            \<lparr>globals = globals w, ctxt = ctx', pushed = pushed w @ [(Some [], 0, 0)]\<rparr>)"
proof -
  have conv: "chunk_args (RString []) = Inr (Some [], 0)"
    by (simp add: chunk_args_def RSTRING_LEN_def cast_int_def)
  have ans: "htmlParseChunk no_handler (ctxt w) (Some []) 0
               (if Qtrue = last_chunk_v then 1 else 0) = (Inr status, g', ctx')"
    using assms by simp
  show ?thesis
    using native_write_converted [where htmlParseChunk = htmlParseChunk and self = self,
        OF conv ans] assms(1)
    by simp
qed

text \<open>
  An instance: on the session that has taken \<open><p>\<close> without error the parser
  answers 0 and changes nothing, and the call returns the receiver with the context
  as it was.
\<close>

theorem empty_chunk_is_forwarded_witness:
  "Qtrue \<noteq> Qfalse
   \<and> stub_htmlParseChunk no_handler (ctxt fed_world) (Some []) 0 0
        = (Inr 0, no_handler, ctxt fed_world)
   \<and> native_write stub_htmlParseChunk fed_world (RObject 3) (RString []) Qfalse
        = (Inr (RObject 3),
           \<lparr>globals = globals fed_world, ctxt = ctxt fed_world,
            pushed = pushed fed_world @ [(Some [], 0, 0)]\<rparr>)"
proof -
  have a1: "Qtrue \<noteq> Qfalse" by simp
  have a2: "stub_htmlParseChunk no_handler (ctxt fed_world) (Some []) 0 0
              = (Inr 0, no_handler, ctxt fed_world)"
    by (simp add: fed_world_eq stub_defs)
  from empty_chunk_is_forwarded
         [where htmlParseChunk = stub_htmlParseChunk and self = "RObject 3", OF a1 a2] a2
  show ?thesis by simp
qed

text \<open>
  C9, as stated, does not hold in one part: a call with a nil chunk does not always
  complete without error. The parser is called and its status tested as for any
  chunk. On the strict session whose earlier call raised,
  \<^verbatim>\<open>native_write(nil, true)\<close> passes NULL and size 0 with \<open>terminate = 1\<close>, the
  status is 76, and the call raises.
\<close>

theorem nil_chunk_raises:
  "fst (stub_htmlParseChunk no_handler (ctxt failed_world) None 0 1) = Inr 76
   \<and> fst (native_write stub_htmlParseChunk failed_world (RObject 3) Qnil Qtrue)
        = Inl (SyntaxError (Some \<lparr>code = 76, message = ''Unexpected end tag''\<rparr>))
   \<and> pushed (snd (native_write stub_htmlParseChunk failed_world (RObject 3) Qnil Qtrue))
        = [(Some ''</b>'', 4, 0), (None, 0, 1)]"
  by (simp add: failed_world_eq) (simp add: run_defs)

text \<open>
  C9, amended. For a nil chunk and either value of \<^verbatim>\<open>last_chunk\<close> the binding
  treats the chunk as empty: no string conversion is attempted, so nothing is read
  from the nil value and no \<^verbatim>\<open>TypeError\<close> arises, and the parser is called with a
  NULL pointer and size 0, with \<open>terminate = 1\<close> exactly when \<^verbatim>\<open>last_chunk\<close> is
  true, which is the end of the document. The call returns the receiver unless the
  parser's status is nonzero while \<^verbatim>\<open>XML_PARSE_RECOVER\<close> is not set; then it raises
  the parse error.
\<close>

theorem nil_chunk_is_null_and_zero:
  assumes "htmlParseChunk no_handler (ctxt w) None 0 (if Qtrue = last_chunk_v then 1 else 0)
             = (Inr status, g', ctx')"
  shows "native_write htmlParseChunk w self Qnil last_chunk_v =
           (if status \<noteq> 0 \<and> (xmlCtxtGetOptions ctx' AND XML_PARSE_RECOVER) = 0
            then Inl (SyntaxError (xmlCtxtGetLastError ctx'))
            else Inr self,
            \<lparr>globals = globals w, ctxt = ctx',
             pushed = pushed w @ [(None, 0, if Qtrue = last_chunk_v then 1 else 0)]\<rparr>)
       \<and> fst (native_write htmlParseChunk w self Qnil last_chunk_v) \<noteq> Inl TypeError"
  using native_write_converted [where htmlParseChunk = htmlParseChunk and self = self,
      OF chunk_args_nil assms]
  by simp

text \<open>
  An instance: \<^verbatim>\<open>native_write(nil, true)\<close> on the session that has taken \<open><p>\<close>
  without error. The parser is told to terminate and the call returns the receiver.
\<close>

theorem nil_chunk_is_null_and_zero_witness:
  "fst (stub_htmlParseChunk no_handler (ctxt fed_world) None 0 1) = Inr 0
   \<and> fst (native_write stub_htmlParseChunk fed_world (RObject 3) Qnil Qtrue) = Inr (RObject 3)
   \<and> pushed (snd (native_write stub_htmlParseChunk fed_world (RObject 3) Qnil Qtrue))
        = [(Some ''<p>'', 3, 0), (None, 0, 1)]
   \<and> terminated (parser_state (ctxt (snd (native_write stub_htmlParseChunk fed_world
        (RObject 3) Qnil Qtrue))))"
proof -
  obtain g' ctx' where a1:
    "stub_htmlParseChunk no_handler (ctxt fed_world) None 0 (if Qtrue = Qtrue then 1 else 0)
       = (Inr 0, g', ctx')"
    by (simp add: fed_world_eq stub_defs)
  have t: "terminated (parser_state ctx')"
    using a1 by (auto simp: stub_defs Let_def)
  have p: "pushed fed_world = [(Some ''<p>'', 3, 0)]"
    by (simp add: fed_world_eq)
  from nil_chunk_is_null_and_zero
         [where htmlParseChunk = stub_htmlParseChunk and self = "RObject 3", OF a1] a1 t
  show ?thesis by (simp add: p)
qed

subsection \<open>Creation\<close>

lemma encoding_arg_nil:
  "encoding_arg xmlParseCharEncoding Qnil = Inr XML_CHAR_ENCODING_NONE"
  by (simp add: encoding_arg_def)

lemma encoding_arg_name:
  "CHR 0x00 \<notin> set name \<Longrightarrow>
     encoding_arg xmlParseCharEncoding (RString name) =
       (if xmlParseCharEncoding name = XML_CHAR_ENCODING_ERROR
        then Inl (ArgError ''Unsupported Encoding'')
        else Inr (xmlParseCharEncoding name))"
  by (simp add: encoding_arg_def Let_def)

text \<open>
  C4. Let the SAX handler unwrap and the filename convert, so that the call gets as
  far as the encoding. If the encoding is a name that \<^verbatim>\<open>xmlParseCharEncoding\<close> does
  not recognise (it answers \<^verbatim>\<open>XML_CHAR_ENCODING_ERROR\<close>), \<^verbatim>\<open>initialize_native\<close>
  raises \<^verbatim>\<open>ArgumentError\<close> "Unsupported Encoding"; this holds whatever
  \<^verbatim>\<open>htmlCreatePushParserCtxt\<close> would do, since the call leaves before it, and no
  context is bound to the receiver. If the encoding is nil or a recognised name, that
  error is not raised: the context is created with the encoding found
  (\<^verbatim>\<open>XML_CHAR_ENCODING_NONE\<close> for nil), and the call returns the receiver with the
  context bound to it, or raises the runtime error when libxml2 gives no context.
\<close>

theorem unsupported_encoding_rejected:
  assumes "noko_xml_sax_parser_unwrap xml_sax = Inr sax"
      and "filename_arg filename_v = Inr filename"
      and "CHR 0x00 \<notin> set name"
  shows "(xmlParseCharEncoding name = XML_CHAR_ENCODING_ERROR \<longrightarrow>
            initialize_native noko_xml_sax_parser_unwrap xmlParseCharEncoding
                htmlCreatePushParserCtxt self xml_sax filename_v (RString name)
              = Inl (ArgError ''Unsupported Encoding''))
       \<and> (xmlParseCharEncoding name \<noteq> XML_CHAR_ENCODING_ERROR \<longrightarrow>
            initialize_native noko_xml_sax_parser_unwrap xmlParseCharEncoding
                htmlCreatePushParserCtxt self xml_sax filename_v (RString name)
              = (case htmlCreatePushParserCtxt sax NULL None 0 filename
                        (xmlParseCharEncoding name) of
                   None \<Rightarrow> Inl (RuntimeError ''Could not create a parser context'')
                 | Some ctx \<Rightarrow>
                     Inr (self, ctx\<lparr>userData_is_ctxt := True, private_data := Some xml_sax\<rparr>))
            \<and> initialize_native noko_xml_sax_parser_unwrap xmlParseCharEncoding
                htmlCreatePushParserCtxt self xml_sax filename_v (RString name)
              \<noteq> Inl (ArgError ''Unsupported Encoding''))
       \<and> initialize_native noko_xml_sax_parser_unwrap xmlParseCharEncoding
              htmlCreatePushParserCtxt self xml_sax filename_v Qnil
            = (case htmlCreatePushParserCtxt sax NULL None 0 filename XML_CHAR_ENCODING_NONE of
                 None \<Rightarrow> Inl (RuntimeError ''Could not create a parser context'')
               | Some ctx \<Rightarrow>
                   Inr (self, ctx\<lparr>userData_is_ctxt := True, private_data := Some xml_sax\<rparr>))
       \<and> initialize_native noko_xml_sax_parser_unwrap xmlParseCharEncoding
              htmlCreatePushParserCtxt self xml_sax filename_v Qnil
            \<noteq> Inl (ArgError ''Unsupported Encoding'')"
  using assms
  by (simp add: initialize_native_def encoding_arg_nil encoding_arg_name split: option.split)

text \<open>
  Instances: the name \<open>bogus-enc\<close> is rejected; \<open>UTF-8\<close> and nil give a parser.
\<close>

theorem unsupported_encoding_rejected_witness:
  "stub_unwrap (RObject 7) = Inr 7
   \<and> filename_arg Qnil = Inr None
   \<and> CHR 0x00 \<notin> set ''bogus-enc''
   \<and> stub_xmlParseCharEncoding ''bogus-enc'' = XML_CHAR_ENCODING_ERROR
   \<and> initialize_native stub_unwrap stub_xmlParseCharEncoding stub_htmlCreatePushParserCtxt
        (RObject 3) (RObject 7) Qnil (RString ''bogus-enc'')
        = Inl (ArgError ''Unsupported Encoding'')
   \<and> CHR 0x00 \<notin> set ''UTF-8''
   \<and> stub_xmlParseCharEncoding ''UTF-8'' = 1
   \<and> initialize_native stub_unwrap stub_xmlParseCharEncoding stub_htmlCreatePushParserCtxt
        (RObject 3) (RObject 7) Qnil (RString ''UTF-8'')
        = Inr (RObject 3,
            \<lparr>userData_is_ctxt = True, private_data = Some (RObject 7), options = 0,
             lastError = \<lparr>code = 0, message = []\<rparr>,
             parser_state = \<lparr>errNo = 0, received = [], terminated = False,
                              sax_handler = 7, input_filename = None, charset = 1\<rparr>\<rparr>)
   \<and> initialize_native stub_unwrap stub_xmlParseCharEncoding stub_htmlCreatePushParserCtxt
        (RObject 3) (RObject 7) Qnil Qnil
        = Inr (RObject 3,
            \<lparr>userData_is_ctxt = True, private_data = Some (RObject 7), options = 0,
             lastError = \<lparr>code = 0, message = []\<rparr>,
             parser_state = \<lparr>errNo = 0, received = [], terminated = False,
                              sax_handler = 7, input_filename = None, charset = 0\<rparr>\<rparr>)"
proof -
  have u: "stub_unwrap (RObject 7) = Inr 7" by (simp add: stub_unwrap_def)
  have f: "filename_arg Qnil = Inr None" by (simp add: filename_arg_def)
  have n1: "CHR 0x00 \<notin> set ''bogus-enc''" by simp
  have n2: "CHR 0x00 \<notin> set ''UTF-8''" by simp
  have e1: "stub_xmlParseCharEncoding ''bogus-enc'' = XML_CHAR_ENCODING_ERROR"
    by (simp add: stub_xmlParseCharEncoding_def)
  have e2: "stub_xmlParseCharEncoding ''UTF-8'' = 1"
    by (simp add: stub_xmlParseCharEncoding_def)
  from unsupported_encoding_rejected
         [where noko_xml_sax_parser_unwrap = stub_unwrap
            and xmlParseCharEncoding = stub_xmlParseCharEncoding
            and htmlCreatePushParserCtxt = stub_htmlCreatePushParserCtxt
            and self = "RObject 3", OF u f n1]
       unsupported_encoding_rejected
         [where noko_xml_sax_parser_unwrap = stub_unwrap
            and xmlParseCharEncoding = stub_xmlParseCharEncoding
            and htmlCreatePushParserCtxt = stub_htmlCreatePushParserCtxt
            and self = "RObject 3", OF u f n2]
       u f e1 e2
  show ?thesis
    by (simp add: stub_htmlCreatePushParserCtxt_def XML_CHAR_ENCODING_ERROR_def
        XML_CHAR_ENCODING_NONE_def)
qed

subsection \<open>Chunks longer than an int\<close>

lemma length_half_chunk: "length half_chunk = 1073741824"
  by (simp add: half_chunk_def)

lemma length_huge_chunk: "length huge_chunk = 2147483648"
  by (simp add: huge_chunk_def length_half_chunk)

lemma cast_int_half: "cast_int (RSTRING_LEN half_chunk) = 1073741824"
  by (simp add: RSTRING_LEN_def length_half_chunk cast_int_def)

lemma cast_int_huge: "cast_int (RSTRING_LEN huge_chunk) = - 2147483648"
  by (simp add: RSTRING_LEN_def length_huge_chunk cast_int_def)

text \<open>For every parser, the size that goes with the long chunk is negative.\<close>

lemma huge_chunk_size:
  "chunk_args (RString huge_chunk) = Inr (Some huge_chunk, - 2147483648)"
  by (simp add: chunk_args_string cast_int_huge)

lemma stub_error_half: "stub_error half_chunk = None"
proof -
  have "set half_chunk = {CHR ''a''}"
    by (simp add: half_chunk_def)
  moreover have "take 2 half_chunk = replicate 2 (CHR ''a'')"
    by (simp add: half_chunk_def)
  then have "take 2 half_chunk = ''aa''"
    by (simp add: numeral_2_eq_2)
  ultimately show ?thesis
    by (simp add: stub_error_def)
qed

lemma stub_error_Nil: "stub_error [] = None"
  by (simp add: stub_error_def)

lemma take_half: "take 1073741824 half_chunk = half_chunk"
  by (simp add: length_half_chunk)

text \<open>
  C7 fails on the code at a chunk of \<open>2\<^sup>3\<^sup>1\<close> bytes. Written in one call, its
  length does not fit the \<^verbatim>\<open>int\<close> that line 24 casts it to: the parser is handed
  the size \<open>-2147483648\<close>, and a parser that reads \<open>size\<close> bytes receives nothing.
  Written as two halves, each call hands over \<open>2\<^sup>3\<^sup>0\<close> bytes and the parser receives
  the whole sequence.
\<close>

theorem huge_chunk_is_dropped:
  "huge_chunk = half_chunk @ half_chunk
   \<and> pushed (snd (native_write stub_htmlParseChunk strict_world (RObject 3)
       (RString huge_chunk) Qfalse)) = [(Some huge_chunk, - 2147483648, 0)]
   \<and> received (parser_state (ctxt (snd (native_write stub_htmlParseChunk strict_world
       (RObject 3) (RString huge_chunk) Qfalse)))) = []
   \<and> received (parser_state (ctxt (snd (native_write stub_htmlParseChunk
       (snd (native_write stub_htmlParseChunk strict_world (RObject 3)
          (RString half_chunk) Qfalse))
       (RObject 3) (RString half_chunk) Qfalse)))) = half_chunk @ half_chunk"
  by (simp add: native_write_def chunk_args_def noko__structured_error_func_save_and_set_def
      noko__structured_error_func_restore_def noko__error_raise_def Let_def
      stub_htmlParseChunk_def strict_world_def stub_world_def stub_ctxt_def
      xmlCtxtGetOptions_def xmlCtxtGetLastError_def XML_PARSE_RECOVER_def
      cast_int_half cast_int_huge stub_error_half stub_error_Nil take_half)
    (simp add: huge_chunk_def)

end
